theory Spec2Isabelle
  imports Complex_Main "HOL-Library.AList" "HOL-Library.Sublist"
begin

section \<open>JavaScript values\<close>

text \<open>
  The controller of \<^verbatim>\<open>src/frontend/src/App.js\<close> stores what the backend sends without
  checking its shape, and its guards are JavaScript truthiness tests. The values that can
  come out of \<^verbatim>\<open>response.json()\<close> are modelled as a datatype, with \<^verbatim>\<open>undefined\<close> added for
  a missing property. Numbers are integers here (JSON cannot carry NaN; fractions play no
  part in any guard of the controller), a string is a list of code units below 256, and
  an object is an association list of its own properties.
\<close>

datatype jsval =
    JUndefined
  | JNull
  | JBool bool
  | JNum int
  | JStr string
  | JArr "jsval list"
  | JObj "(string \<times> jsval) list"

text \<open>\<^verbatim>\<open>Boolean(v)\<close>, \<^verbatim>\<open>!v\<close>, \<^verbatim>\<open>if (v)\<close>.\<close>

fun truthy :: "jsval \<Rightarrow> bool" where
  "truthy JUndefined = False"
| "truthy JNull = False"
| "truthy (JBool b) = b"
| "truthy (JNum n) = (n \<noteq> 0)"
| "truthy (JStr s) = (s \<noteq> [])"
| "truthy (JArr xs) = True"
| "truthy (JObj kvs) = True"

definition nullish :: "jsval \<Rightarrow> bool" where
  "nullish v = (v = JUndefined \<or> v = JNull)"

text \<open>\<^verbatim>\<open>a || b\<close> and \<^verbatim>\<open>a ?? b\<close>.\<close>

definition js_or :: "jsval \<Rightarrow> jsval \<Rightarrow> jsval" where
  "js_or a b = (if truthy a then a else b)"

definition js_coalesce :: "jsval \<Rightarrow> jsval \<Rightarrow> jsval" where
  "js_coalesce a b = (if nullish a then b else a)"

text \<open>\<^verbatim>\<open>typeof v === 'object'\<close>: true of \<^verbatim>\<open>null\<close>, arrays and objects.\<close>

fun typeof_object :: "jsval \<Rightarrow> bool" where
  "typeof_object JNull = True"
| "typeof_object (JArr xs) = True"
| "typeof_object (JObj kvs) = True"
| "typeof_object v = False"

text \<open>
  Reading a property of a value that is neither \<^verbatim>\<open>null\<close> nor \<^verbatim>\<open>undefined\<close>: an own
  property of an object, the \<^verbatim>\<open>length\<close> of an array or a string, \<^verbatim>\<open>undefined\<close> otherwise.
  The controller reads only fixed names (\<^verbatim>\<open>id\<close>, \<^verbatim>\<open>case\<close>, \<^verbatim>\<open>characters\<close>, \<^verbatim>\<open>length\<close> and so
  on), never an index or an inherited method, so those are left out.
\<close>

fun get_prop :: "jsval \<Rightarrow> string \<Rightarrow> jsval" where
  "get_prop (JObj kvs) k = (case map_of kvs k of Some v \<Rightarrow> v | None \<Rightarrow> JUndefined)"
| "get_prop (JArr xs) k = (if k = ''length'' then JNum (int (length xs)) else JUndefined)"
| "get_prop (JStr s) k = (if k = ''length'' then JNum (int (length s)) else JUndefined)"
| "get_prop v k = JUndefined"

datatype error =
    Error string   \<comment> \<open>\<^verbatim>\<open>new Error(message)\<close>\<close>
  | TypeError      \<comment> \<open>a property read on \<^verbatim>\<open>null\<close>/\<^verbatim>\<open>undefined\<close>, a spread of a non-iterable\<close>
  | SyntaxError    \<comment> \<open>\<^verbatim>\<open>response.json()\<close> or \<^verbatim>\<open>JSON.parse\<close> on a text that is not JSON\<close>
  | FetchFailed    \<comment> \<open>\<^verbatim>\<open>fetch\<close> rejected: no response at all\<close>

text \<open>\<^verbatim>\<open>v.k\<close> raises on \<^verbatim>\<open>null\<close> and \<^verbatim>\<open>undefined\<close>; \<^verbatim>\<open>v?.[k]\<close> gives \<^verbatim>\<open>undefined\<close> there.\<close>

definition member :: "jsval \<Rightarrow> string \<Rightarrow> error + jsval" where
  "member v k = (if nullish v then Inl TypeError else Inr (get_prop v k))"

definition opt_member :: "jsval \<Rightarrow> string \<Rightarrow> jsval" where
  "opt_member v k = (if nullish v then JUndefined else get_prop v k)"

text \<open>\<^verbatim>\<open>[...v]\<close>: the elements of an array, the characters of a string, a TypeError otherwise.\<close>

fun iterate :: "jsval \<Rightarrow> jsval list option" where
  "iterate (JArr xs) = Some xs"
| "iterate (JStr s) = Some (map (\<lambda>c. JStr [c]) s)"
| "iterate v = None"

subsection \<open>Decimal text, \<^verbatim>\<open>String(v)\<close>\<close>

text \<open>
  Integers print with all their digits; JavaScript switches to exponent form from
  \<open>10\<^sup>2\<^sup>1\<close> on, which the save name and the conversation key never meet with
  identifiers and titles that are texts.
\<close>

fun show_nat :: "nat \<Rightarrow> string" where
  "show_nat n =
     (if n < 10 then [''0123456789'' ! n]
      else show_nat (n div 10) @ [''0123456789'' ! (n mod 10)])"

declare show_nat.simps [simp del]

definition show_int :: "int \<Rightarrow> string" where
  "show_int i = (if i < 0 then CHR ''-'' # show_nat (nat (- i)) else show_nat (nat i))"

fun join_comma :: "string list \<Rightarrow> string" where
  "join_comma [] = []"
| "join_comma [s] = s"
| "join_comma (s # t # ss) = s @ '','' @ join_comma (t # ss)"

fun ToString :: "jsval \<Rightarrow> string" where
  "ToString JUndefined = ''undefined''"
| "ToString JNull = ''null''"
| "ToString (JBool b) = (if b then ''true'' else ''false'')"
| "ToString (JNum n) = show_int n"
| "ToString (JStr s) = s"
| "ToString (JArr xs) = join_comma (map (\<lambda>x. if nullish x then [] else ToString x) xs)"
| "ToString (JObj kvs) = ''[object Object]''"

text \<open>\<^verbatim>\<open>{...v}\<close>: the own enumerable properties of \<^verbatim>\<open>v\<close>; nothing for a primitive.\<close>

fun spread :: "jsval \<Rightarrow> (string \<times> jsval) list" where
  "spread (JObj kvs) = kvs"
| "spread (JArr xs) = zip (map show_nat [0..<length xs]) xs"
| "spread (JStr s) = zip (map show_nat [0..<length s]) (map (\<lambda>c. JStr [c]) s)"
| "spread v = []"

text \<open>\<^verbatim>\<open>{...prev, k: v}\<close>\<close>

definition with_prop :: "jsval \<Rightarrow> string \<Rightarrow> jsval \<Rightarrow> jsval" where
  "with_prop prev k v = JObj (AList.update k v (spread prev))"

subsection \<open>\<^verbatim>\<open>safeGet(obj, path, defaultValue = null)\<close>\<close>

fun split_dot :: "string \<Rightarrow> string list" where
  "split_dot [] = [[]]"
| "split_dot (c # cs) =
     (if c = CHR ''.'' then [] # split_dot cs
      else (case split_dot cs of w # ws \<Rightarrow> (c # w) # ws | [] \<Rightarrow> [[c]]))"

definition safeGet :: "jsval \<Rightarrow> string \<Rightarrow> jsval \<Rightarrow> jsval" where
  "safeGet obj path defaultValue = js_coalesce (foldl opt_member obj (split_dot path)) defaultValue"

section \<open>Controller state\<close>

datatype screen_mode = Menu | Playing | Analysis

record conversation_entry =
  ce_question :: string
  ce_response :: jsval
  ce_timestamp :: string

record character_notification =
  cn_id :: rat
  cn_character :: jsval
  cn_discoveredThrough :: jsval
  cn_context :: jsval
  cn_timestamp :: int

record scene_notification =
  sn_id :: rat
  sn_scene :: jsval
  sn_character :: jsval
  sn_timestamp :: int

text \<open>
  The object \<^verbatim>\<open>gameData\<close> built by \<^verbatim>\<open>saveGame\<close>. The six members that \<^verbatim>\<open>loadGame\<close> reads with
  a default (\<^verbatim>\<open>saveData.x || d\<close>) are optional: \<open>None\<close> is a record that lacks the member.
\<close>

record save_record =
  sr_id :: string
  sr_name :: string
  sr_timestamp :: string
  sr_currentCase :: jsval
  sr_sessionId :: jsval
  sr_conversations :: "(string \<times> conversation_entry list) list option"
  sr_investigationNotes :: "string option"
  sr_selectedEvidence :: "string list option"
  sr_theory :: "string option"
  sr_analysis :: jsval
  sr_gameState :: "screen_mode option"

text \<open>
  The \<^verbatim>\<open>useState\<close> cells of \<^verbatim>\<open>App\<close>. \<^verbatim>\<open>theory\<close> is spelt \<open>theory_text\<close>. Evidence identifiers
  are strings; \<^verbatim>\<open>conversations\<close> is an object keyed by character identifier, kept in
  insertion order.
\<close>

record controller =
  currentCase :: jsval
  sessionId :: jsval
  loading :: bool
  activeCharacter :: jsval
  question :: string
  conversations :: "(string \<times> conversation_entry list) list"
  selectedEvidence :: "string list"
  theory_text :: string
  analysis :: jsval
  investigationNotes :: string
  gameState :: screen_mode
  showContextPanel :: bool
  showSaveLoad :: bool
  newCharacterNotifications :: "character_notification list"
  visualSceneNotifications :: "scene_notification list"
  showVisualGallery :: bool
  savedGames :: "save_record list"

definition initial_controller :: controller where
  "initial_controller =
     \<lparr> currentCase = JNull, sessionId = JNull, loading = False, activeCharacter = JNull,
       question = [], conversations = [], selectedEvidence = [], theory_text = [],
       analysis = JStr [], investigationNotes = [], gameState = Menu,
       showContextPanel = False, showSaveLoad = False, newCharacterNotifications = [],
       visualSceneNotifications = [], showVisualGallery = False, savedGames = [] \<rparr>"

section \<open>Evidence selection\<close>

text \<open>
  \<^verbatim>\<open>setSelectedEvidence(prev => prev.includes(evidenceId)
       ? prev.filter(id => id !== evidenceId) : [...prev, evidenceId])\<close>
\<close>

definition toggleEvidenceSelection :: "string \<Rightarrow> controller \<Rightarrow> controller" where
  "toggleEvidenceSelection evidenceId s =
     s\<lparr>selectedEvidence :=
         (if evidenceId \<in> set (selectedEvidence s)
          then filter (\<lambda>i. i \<noteq> evidenceId) (selectedEvidence s)
          else selectedEvidence s @ [evidenceId])\<rparr>"

text \<open>A sequence of calls, first call first.\<close>

definition toggle_all :: "string list \<Rightarrow> controller \<Rightarrow> controller" where
  "toggle_all ids s = foldl (\<lambda>st i. toggleEvidenceSelection i st) s ids"

section \<open>Local save store\<close>

text \<open>
  \<^verbatim>\<open>localStorage\<close> maps keys to texts. \<^verbatim>\<open>JSON.stringify\<close> and \<^verbatim>\<open>JSON.parse\<close> are the
  platform's, not this repository's: a stored text is modelled by what \<^verbatim>\<open>JSON.parse\<close> makes
  of it, either the collection of save records it encodes or a text that does not parse.
\<close>

datatype stored =
    Encoded "save_record list"   \<comment> \<open>\<^verbatim>\<open>JSON.stringify(saves)\<close>\<close>
  | Corrupt string               \<comment> \<open>a text that \<^verbatim>\<open>JSON.parse\<close> rejects\<close>

type_synonym storage = "string \<rightharpoonup> stored"

definition saves_key :: string where
  "saves_key = ''detective_saved_games''"

fun JSON_parse :: "stored \<Rightarrow> error + save_record list" where
  "JSON_parse (Encoded saves) = Inr saves"
| "JSON_parse (Corrupt s) = Inl SyntaxError"

text \<open>\<^verbatim>\<open>if (saved)\<close> on a text: the empty text is falsy; an encoded array is at least \<^verbatim>\<open>[]\<close>.\<close>

fun stored_truthy :: "stored \<Rightarrow> bool" where
  "stored_truthy (Encoded saves) = True"
| "stored_truthy (Corrupt s) = (s \<noteq> [])"

text \<open>\<^verbatim>\<open>localStorage.setItem\<close> raises when the quota is exceeded or storage is disabled.\<close>

definition setItem :: "bool \<Rightarrow> string \<Rightarrow> stored \<Rightarrow> storage \<Rightarrow> error + storage" where
  "setItem write_fails k v st = (if write_fails then Inl (Error ''QuotaExceededError'') else Inr (st(k \<mapsto> v)))"

text \<open>The collection the store holds: what the spec calls \<^verbatim>\<open>list()\<close>.\<close>

definition persisted :: "storage \<Rightarrow> save_record list" where
  "persisted st = (case st saves_key of Some (Encoded saves) \<Rightarrow> saves | _ \<Rightarrow> [])"

datatype alert =
    NoActiveCase                 \<comment> \<open>\<^verbatim>\<open>No active case to save!\<close>\<close>
  | SaveSucceeded string         \<comment> \<open>\<^verbatim>\<open>Game saved successfully as: <name>\<close>\<close>
  | SaveFailed                   \<comment> \<open>\<^verbatim>\<open>Failed to save game. Please try again.\<close>\<close>
  | Loaded string                \<comment> \<open>\<^verbatim>\<open>Loaded: <name>\<close>\<close>
  | DeleteFailed                 \<comment> \<open>\<^verbatim>\<open>Failed to delete save. Please try again.\<close>\<close>
  | GenerateFailed error         \<comment> \<open>\<^verbatim>\<open>Failed to generate new case: <message>\<close>\<close>
  | QuestionFailed error         \<comment> \<open>\<^verbatim>\<open>Failed to question character: <message>\<close>\<close>
  | AnalyzeInvalid               \<comment> \<open>\<^verbatim>\<open>Please select evidence and provide a theory to analyze.\<close>\<close>
  | AnalyzeFailed                \<comment> \<open>\<^verbatim>\<open>Failed to analyze evidence. Please try again.\<close>\<close>

subsection \<open>The mount effect that loads the saved games\<close>

text \<open>
  \<^verbatim>\<open>const saved = localStorage.getItem('detective_saved_games');
  if (saved) { try { setSavedGames(JSON.parse(saved)); }
               catch (error) { localStorage.removeItem('detective_saved_games'); } }\<close>
\<close>

definition loadSavedGames :: "storage \<Rightarrow> controller \<Rightarrow> storage \<times> controller" where
  "loadSavedGames st s =
     (case st saves_key of
        None \<Rightarrow> (st, s)
      | Some saved \<Rightarrow>
          if stored_truthy saved then
            (case JSON_parse saved of
               Inr parsedSaves \<Rightarrow> (st, s\<lparr>savedGames := parsedSaves\<rparr>)
             | Inl e \<Rightarrow> (st(saves_key := None), s))
          else (st, s))"

subsection \<open>\<^verbatim>\<open>saveGame\<close>, \<^verbatim>\<open>loadGame\<close>, \<^verbatim>\<open>deleteSave\<close>\<close>

text \<open>
  The object literal of \<^verbatim>\<open>saveGame\<close>; \<open>now\<close> is \<^verbatim>\<open>Date.now()\<close> and \<open>locale_now\<close> is
  \<^verbatim>\<open>new Date().toLocaleString()\<close>.
\<close>

definition gameData :: "int \<Rightarrow> string \<Rightarrow> string \<Rightarrow> controller \<Rightarrow> save_record" where
  "gameData now locale_now saveName s =
     \<lparr> sr_id = show_int now,
       sr_name = (if saveName \<noteq> [] then saveName
                  else ''Case: '' @ ToString (get_prop (currentCase s) ''title'')),
       sr_timestamp = locale_now,
       sr_currentCase = currentCase s,
       sr_sessionId = sessionId s,
       sr_conversations = Some (conversations s),
       sr_investigationNotes = Some (investigationNotes s),
       sr_selectedEvidence = Some (selectedEvidence s),
       sr_theory = Some (theory_text s),
       sr_analysis = analysis s,
       sr_gameState = Some (gameState s) \<rparr>"

definition saveGame ::
  "int \<Rightarrow> string \<Rightarrow> bool \<Rightarrow> string \<Rightarrow> storage \<Rightarrow> controller \<Rightarrow> storage \<times> controller \<times> alert list" where
  "saveGame now locale_now write_fails saveName st s =
     (if \<not> truthy (currentCase s) then (st, s, [NoActiveCase])
      else
        let game = gameData now locale_now saveName s;
            updatedSaves = savedGames s @ [game]
        in case setItem write_fails saves_key (Encoded updatedSaves) st of
             Inr st' \<Rightarrow>
               (st', s\<lparr>savedGames := updatedSaves, showSaveLoad := False\<rparr>,
                [SaveSucceeded (sr_name game)])
           | Inl e \<Rightarrow> (st, s, [SaveFailed]))"

text \<open>\<^verbatim>\<open>x || d\<close> on an optional member: a text is falsy when empty, an object or array never.\<close>

definition text_or :: "string option \<Rightarrow> string \<Rightarrow> string" where
  "text_or x d = (case x of None \<Rightarrow> d | Some t \<Rightarrow> if t \<noteq> [] then t else d)"

definition object_or :: "'a option \<Rightarrow> 'a \<Rightarrow> 'a" where
  "object_or x d = (case x of None \<Rightarrow> d | Some v \<Rightarrow> v)"

definition loadGame :: "save_record \<Rightarrow> controller \<Rightarrow> controller \<times> alert list" where
  "loadGame saveData s =
     (s\<lparr> currentCase := sr_currentCase saveData,
         sessionId := sr_sessionId saveData,
         conversations := object_or (sr_conversations saveData) [],
         investigationNotes := text_or (sr_investigationNotes saveData) [],
         selectedEvidence := object_or (sr_selectedEvidence saveData) [],
         theory_text := text_or (sr_theory saveData) [],
         analysis := js_or (sr_analysis saveData) (JStr []),
         gameState := object_or (sr_gameState saveData) Playing,
         showSaveLoad := False \<rparr>,
      [Loaded (sr_name saveData)])"

text \<open>\<open>confirmed\<close> is the answer of \<^verbatim>\<open>window.confirm\<close>.\<close>

definition deleteSave ::
  "bool \<Rightarrow> bool \<Rightarrow> string \<Rightarrow> storage \<Rightarrow> controller \<Rightarrow> storage \<times> controller \<times> alert list" where
  "deleteSave confirmed write_fails saveId st s =
     (if confirmed then
        let updatedSaves = filter (\<lambda>save. sr_id save \<noteq> saveId) (savedGames s)
        in case setItem write_fails saves_key (Encoded updatedSaves) st of
             Inr st' \<Rightarrow> (st', s\<lparr>savedGames := updatedSaves\<rparr>, [])
           | Inl e \<Rightarrow> (st, s, [DeleteFailed])
      else (st, s, []))"

section \<open>Backend calls\<close>

text \<open>
  What \<^verbatim>\<open>fetch\<close> resolves to. \<open>resp_text\<close> is the outcome of \<^verbatim>\<open>response.text()\<close> (\<open>None\<close> when
  reading the body rejects) and \<open>resp_json\<close> that of \<^verbatim>\<open>response.json()\<close> (\<open>None\<close> when the body
  is not JSON). \<^verbatim>\<open>response.ok\<close> is the platform's test for a status from 200 to 299.
\<close>

record response =
  resp_status :: nat
  resp_statusText :: string
  resp_text :: "string option"
  resp_json :: "jsval option"

definition resp_ok :: "response \<Rightarrow> bool" where
  "resp_ok r = (200 \<le> resp_status r \<and> resp_status r \<le> 299)"

datatype fetch_result = Rejected | Resolved response

datatype request =
    GenerateCase                                  \<comment> \<open>\<^verbatim>\<open>POST /api/generate-case\<close>\<close>
  | GetCase jsval                                 \<comment> \<open>\<^verbatim>\<open>GET /api/cases/<id>\<close>\<close>
  | QuestionCharacter jsval jsval string          \<comment> \<open>\<^verbatim>\<open>POST /api/question-character\<close>: case_id, character_id, question\<close>
  | AnalyzeEvidence jsval "string list" string    \<comment> \<open>\<^verbatim>\<open>POST /api/analyze-evidence\<close>: case_id, evidence_ids, theory\<close>

subsection \<open>\<^verbatim>\<open>handleApiResponse\<close>\<close>

definition http_message :: "response \<Rightarrow> string" where
  "http_message r = ''HTTP '' @ show_nat (resp_status r) @ '': '' @ resp_statusText r"

definition handleApiResponse :: "response \<Rightarrow> error + jsval" where
  "handleApiResponse r =
     (if \<not> resp_ok r then
        Inl (Error (case resp_text r of
                      Some errorData \<Rightarrow> if errorData \<noteq> [] then errorData else http_message r
                    | None \<Rightarrow> http_message r))
      else
        (case resp_json r of
           None \<Rightarrow> Inl SyntaxError
         | Some data \<Rightarrow>
             if \<not> truthy data \<or> \<not> typeof_object data
             then Inl (Error ''Invalid response format from server'')
             else Inr data))"

subsection \<open>Effects and timers\<close>

text \<open>
  A timer set by \<^verbatim>\<open>setTimeout\<close> is recorded with its delay in milliseconds and what its
  callback does when it fires; \<open>fire\<close> runs the callback on the state of that moment.
\<close>

datatype timer_action =
    ExpireCharacterNotifications "character_notification list"
  | ExpireSceneNotification scene_notification

datatype effect =
    Alerted alert
  | Fetched request
  | SetTimeout nat timer_action


definition onDismissCharacter :: "rat \<Rightarrow> controller \<Rightarrow> controller" where
  "onDismissCharacter i s =
     s\<lparr>newCharacterNotifications := filter (\<lambda>n. cn_id n \<noteq> i) (newCharacterNotifications s)\<rparr>"

definition onDismissVisual :: "rat \<Rightarrow> controller \<Rightarrow> controller" where
  "onDismissVisual i s =
     s\<lparr>visualSceneNotifications := filter (\<lambda>n. sn_id n \<noteq> i) (visualSceneNotifications s)\<rparr>"

text \<open>
  What a call reads from outside: the backend, the values of \<^verbatim>\<open>Date.now() + Math.random()\<close>
  in the order they are evaluated, \<^verbatim>\<open>Date.now()\<close> and \<^verbatim>\<open>new Date().toLocaleTimeString()\<close>.
\<close>

record environment =
  fetch :: "request \<Rightarrow> fetch_result"
  fresh_id :: "nat \<Rightarrow> rat"
  date_now :: int
  time_string :: string

text \<open>
  A state updater that raises does so while React renders, outside the \<^verbatim>\<open>try\<close> of the
  function that queued it; \<^verbatim>\<open>App\<close> has no error boundary, so the component is unmounted.
\<close>

datatype 'a outcome = Completed 'a | RenderCrash error

subsection \<open>\<^verbatim>\<open>String.prototype.trim\<close>\<close>

definition is_space :: "char \<Rightarrow> bool" where
  "is_space c = (of_char c \<in> {9, 10, 11, 12, 13, 32, 160 :: nat})"

definition trim :: "string \<Rightarrow> string" where
  "trim s = rev (dropWhile is_space (rev (dropWhile is_space s)))"

section \<open>\<^verbatim>\<open>generateNewCase\<close>\<close>

text \<open>The \<^verbatim>\<open>try\<close> block up to the first state update: the validated case and session id.\<close>

definition generated_case :: "fetch_result \<Rightarrow> error + jsval \<times> jsval" where
  "generated_case res =
     (case res of
        Rejected \<Rightarrow> Inl FetchFailed
      | Resolved response \<Rightarrow>
          (case handleApiResponse response of
             Inl e \<Rightarrow> Inl e
           | Inr data \<Rightarrow>
               let caseData = safeGet data ''case'' JNull;
                   sessionId = safeGet data ''session_id'' JNull
               in if \<not> truthy caseData \<or> \<not> truthy (get_prop caseData ''id'')
                  then Inl (Error ''Invalid case data received from server'')
                  else Inr (caseData, sessionId)))"

definition generateNewCase :: "environment \<Rightarrow> controller \<Rightarrow> controller \<times> effect list" where
  "generateNewCase env s =
     (case generated_case (fetch env GenerateCase) of
        Inr (caseData, sid) \<Rightarrow>
          (s\<lparr> currentCase := caseData, sessionId := sid, gameState := Playing,
              conversations := [], selectedEvidence := [], theory_text := [],
              analysis := JStr [], investigationNotes := [], showContextPanel := False,
              loading := False \<rparr>,
           [Fetched GenerateCase])
      | Inl e \<Rightarrow>
          (s\<lparr>loading := False\<rparr>, [Fetched GenerateCase, Alerted (GenerateFailed e)]))"

text \<open>The parts of the controller state that a failed call must leave alone.\<close>

definition core_unchanged :: "controller \<Rightarrow> controller \<Rightarrow> bool" where
  "core_unchanged s s' =
     (currentCase s' = currentCase s \<and> sessionId s' = sessionId s
      \<and> conversations s' = conversations s \<and> selectedEvidence s' = selectedEvidence s
      \<and> theory_text s' = theory_text s \<and> analysis s' = analysis s
      \<and> investigationNotes s' = investigationNotes s \<and> gameState s' = gameState s)"

section \<open>\<^verbatim>\<open>analyzeEvidence\<close>\<close>

definition analyzeEvidence :: "environment \<Rightarrow> controller \<Rightarrow> controller \<times> effect list" where
  "analyzeEvidence env s =
     (if trim (theory_text s) = [] \<or> selectedEvidence s = [] then (s, [Alerted AnalyzeInvalid])
      else
        (case member (currentCase s) ''id'' of
           Inl e \<Rightarrow> (s\<lparr>loading := False\<rparr>, [Alerted AnalyzeFailed])
         | Inr case_id \<Rightarrow>
             let req = AnalyzeEvidence case_id (selectedEvidence s) (trim (theory_text s));
                 failed = (s\<lparr>loading := False\<rparr>, [Fetched req, Alerted AnalyzeFailed])
             in (case fetch env req of
                   Rejected \<Rightarrow> failed
                 | Resolved response \<Rightarrow>
                     if \<not> resp_ok response then failed
                     else
                       (case resp_json response of
                          None \<Rightarrow> failed
                        | Some data \<Rightarrow>
                            (case member data ''analysis'' of
                               Inl e \<Rightarrow> failed
                             | Inr a \<Rightarrow>
                                 (s\<lparr>analysis := a, gameState := Analysis, loading := False\<rparr>,
                                  [Fetched req]))))))"

section \<open>\<^verbatim>\<open>questionCharacter\<close>\<close>

text \<open>\<^verbatim>\<open>newCharactersDiscovered.map(discovery => safeGet(discovery, 'character')).filter(Boolean)\<close>\<close>

definition discovered_characters :: "jsval list \<Rightarrow> jsval list" where
  "discovered_characters ds = filter truthy (map (\<lambda>discovery. safeGet discovery ''character'' JNull) ds)"

text \<open>The notification objects, one per entry, then \<^verbatim>\<open>.filter(notif => notif.character)\<close>.\<close>

definition new_notification :: "environment \<Rightarrow> nat \<times> jsval \<Rightarrow> character_notification" where
  "new_notification env p =
     \<lparr> cn_id = fresh_id env (fst p),
       cn_character = safeGet (snd p) ''character'' JNull,
       cn_discoveredThrough = safeGet (snd p) ''discovered_through'' (JStr ''Unknown''),
       cn_context = safeGet (snd p) ''context'' (JStr []),
       cn_timestamp = date_now env \<rparr>"

definition discovery_notifications :: "environment \<Rightarrow> jsval list \<Rightarrow> character_notification list" where
  "discovery_notifications env ds =
     filter (\<lambda>notif. truthy (cn_character notif)) (map (new_notification env) (enumerate 0 ds))"

text \<open>
  \<^verbatim>\<open>prev => ({...prev, characters: [...prev.characters, ...discovered]})\<close> and
  \<^verbatim>\<open>prev => ({...prev, visual_scenes: [...(prev.visual_scenes || []), scene]})\<close>
\<close>

definition add_characters :: "jsval list \<Rightarrow> jsval \<Rightarrow> error + jsval" where
  "add_characters ds prev =
     (case member prev ''characters'' of
        Inl e \<Rightarrow> Inl e
      | Inr cs \<Rightarrow>
          (case iterate cs of
             None \<Rightarrow> Inl TypeError
           | Some xs \<Rightarrow> Inr (with_prop prev ''characters'' (JArr (xs @ discovered_characters ds)))))"

definition add_scene :: "jsval \<Rightarrow> jsval \<Rightarrow> error + jsval" where
  "add_scene scene prev =
     (case member prev ''visual_scenes'' of
        Inl e \<Rightarrow> Inl e
      | Inr vs \<Rightarrow>
          (case iterate (js_or vs (JArr [])) of
             None \<Rightarrow> Inl TypeError
           | Some xs \<Rightarrow> Inr (with_prop prev ''visual_scenes'' (JArr (xs @ [scene])))))"

text \<open>The block \<^verbatim>\<open>if (Array.isArray(newCharactersDiscovered) && newCharactersDiscovered.length > 0)\<close>.\<close>

definition handle_discoveries ::
  "environment \<Rightarrow> jsval \<Rightarrow> controller \<Rightarrow> (controller \<times> effect list) outcome" where
  "handle_discoveries env newCharactersDiscovered s =
     (case newCharactersDiscovered of
        JArr (d # ds) \<Rightarrow>
          (case add_characters (d # ds) (currentCase s) of
             Inl e \<Rightarrow> RenderCrash e
           | Inr c \<Rightarrow>
               let notifications = discovery_notifications env (d # ds)
               in Completed
                    (s\<lparr> currentCase := c,
                        newCharacterNotifications := newCharacterNotifications s @ notifications \<rparr>,
                     [SetTimeout 10000 (ExpireCharacterNotifications notifications)]))
      | _ \<Rightarrow> Completed (s, []))"

text \<open>The block \<^verbatim>\<open>if (visualSceneGenerated)\<close>; \<open>k\<close> counts the identifiers drawn so far.\<close>

definition handle_scene ::
  "environment \<Rightarrow> nat \<Rightarrow> jsval \<Rightarrow> jsval \<Rightarrow> controller \<Rightarrow> (controller \<times> effect list) outcome" where
  "handle_scene env k characterName visualSceneGenerated s =
     (if truthy visualSceneGenerated then
        (case add_scene visualSceneGenerated (currentCase s) of
           Inl e \<Rightarrow> RenderCrash e
         | Inr c \<Rightarrow>
             let sceneNotification =
                   \<lparr> sn_id = fresh_id env k, sn_scene = visualSceneGenerated,
                     sn_character = characterName, sn_timestamp = date_now env \<rparr>
             in Completed
                  (s\<lparr> currentCase := c,
                      visualSceneNotifications := visualSceneNotifications s @ [sceneNotification] \<rparr>,
                   [SetTimeout 8000 (ExpireSceneNotification sceneNotification)]))
      else Completed (s, []))"

text \<open>Everything after \<^verbatim>\<open>handleApiResponse\<close> has returned \<open>data\<close>.\<close>

definition apply_answer ::
  "environment \<Rightarrow> jsval \<Rightarrow> controller \<Rightarrow> (controller \<times> effect list) outcome" where
  "apply_answer env data s =
     (let characterName = js_or (safeGet data ''character_name'' JNull)
                                (get_prop (activeCharacter s) ''name'');
          response_text = safeGet data ''response'' (JStr ''No response received'');
          charId = ToString (get_prop (activeCharacter s) ''id'');
          entry = \<lparr> ce_question = trim (question s), ce_response = response_text,
                    ce_timestamp = time_string env \<rparr>;
          s1 = s\<lparr>conversations :=
                   AList.update charId
                     (object_or (map_of (conversations s) charId) [] @ [entry])
                     (conversations s)\<rparr>;
          newCharactersDiscovered = safeGet data ''new_characters_discovered'' (JArr []);
          k = (case newCharactersDiscovered of JArr (d # ds) \<Rightarrow> Suc (length ds) | _ \<Rightarrow> 0)
      in case handle_discoveries env newCharactersDiscovered s1 of
           RenderCrash e \<Rightarrow> RenderCrash e
         | Completed (s2, timers2) \<Rightarrow>
             (case handle_scene env k characterName
                     (safeGet data ''visual_scene_generated'' JNull) s2 of
                RenderCrash e \<Rightarrow> RenderCrash e
              | Completed (s3, timers3) \<Rightarrow>
                  Completed (s3\<lparr>question := [], loading := False\<rparr>, timers2 @ timers3)))"

definition questionCharacter ::
  "environment \<Rightarrow> controller \<Rightarrow> (controller \<times> effect list) outcome" where
  "questionCharacter env s =
     (if trim (question s) = [] \<or> \<not> truthy (activeCharacter s) then Completed (s, [])
      else
        (case member (currentCase s) ''id'' of
           Inl e \<Rightarrow> Completed (s\<lparr>loading := False\<rparr>, [Alerted (QuestionFailed e)])
         | Inr case_id \<Rightarrow>
             let req = QuestionCharacter case_id (get_prop (activeCharacter s) ''id'')
                         (trim (question s))
             in (case fetch env req of
                   Rejected \<Rightarrow>
                     Completed (s\<lparr>loading := False\<rparr>, [Fetched req, Alerted (QuestionFailed FetchFailed)])
                 | Resolved response \<Rightarrow>
                     (case handleApiResponse response of
                        Inl e \<Rightarrow>
                          Completed (s\<lparr>loading := False\<rparr>, [Fetched req, Alerted (QuestionFailed e)])
                      | Inr data \<Rightarrow>
                          (case apply_answer env data s of
                             RenderCrash e \<Rightarrow> RenderCrash e
                           | Completed (s', timers) \<Rightarrow> Completed (s', Fetched req # timers))))))"

section \<open>Polling refresher\<close>

text \<open>
  \<^verbatim>\<open>(v || []).length\<close>, as far as a comparison can use it: the number of elements of an array (or
  of characters of a text), a numeric own \<^verbatim>\<open>length\<close> of an object, and nothing where there is
  no \<^verbatim>\<open>length\<close>, which compares false either way. An object whose own \<^verbatim>\<open>length\<close> is a text,
  a truth value or \<^verbatim>\<open>null\<close> would be converted to a number by JavaScript's comparison; that
  conversion is not modelled, and such a scene list counts as having no length here.
\<close>

definition scenes_count :: "jsval \<Rightarrow> int option" where
  "scenes_count v =
     (case get_prop (js_or v (JArr [])) ''length'' of JNum n \<Rightarrow> Some n | _ \<Rightarrow> None)"

definition count_gt :: "int option \<Rightarrow> int option \<Rightarrow> bool" where
  "count_gt a b = (case (a, b) of (Some m, Some n) \<Rightarrow> m > n | _ \<Rightarrow> False)"

text \<open>
  \<^verbatim>\<open>refreshCaseData\<close> reads \<^verbatim>\<open>currentCase\<close>, the value its render saw, in its guards, and
  writes through \<^verbatim>\<open>setCurrentCase(prev => ...)\<close>, on the state of the moment. The two are
  separate arguments: \<open>currentCase_seen\<close> and the controller \<open>s\<close>. Both guards read a
  property of \<^verbatim>\<open>updatedCase\<close> before any update is queued, so a missing \<^verbatim>\<open>case\<close> member raises
  with nothing changed, and the \<^verbatim>\<open>catch\<close> only logs.
\<close>

definition refreshCaseData ::
  "environment \<Rightarrow> jsval \<Rightarrow> controller \<Rightarrow> controller \<times> effect list" where
  "refreshCaseData env currentCase_seen s =
     (if \<not> truthy (opt_member currentCase_seen ''id'') then (s, [])
      else
        let req = GetCase (get_prop currentCase_seen ''id'')
        in (case fetch env req of
              Rejected \<Rightarrow> (s, [Fetched req])
            | Resolved response \<Rightarrow>
                if \<not> resp_ok response then (s, [Fetched req])
                else
                  (case resp_json response of
                     None \<Rightarrow> (s, [Fetched req])
                   | Some data \<Rightarrow>
                       (case member data ''case'' of
                          Inl e \<Rightarrow> (s, [Fetched req])
                        | Inr updatedCase \<Rightarrow>
                            if nullish updatedCase then (s, [Fetched req])
                            else
                              let s1 =
                                    (if \<not> truthy (get_prop currentCase_seen ''crime_scene_image_url'')
                                        \<and> truthy (get_prop updatedCase ''crime_scene_image_url'')
                                     then s\<lparr>currentCase :=
                                              with_prop (currentCase s) ''crime_scene_image_url''
                                                (get_prop updatedCase ''crime_scene_image_url'')\<rparr>
                                     else s);
                                  currentScenesCount = scenes_count (get_prop currentCase_seen ''visual_scenes'');
                                  updatedScenesCount = scenes_count (get_prop updatedCase ''visual_scenes'');
                                  s2 =
                                    (if count_gt updatedScenesCount currentScenesCount
                                     then s1\<lparr>currentCase :=
                                               with_prop (currentCase s1) ''visual_scenes''
                                                 (js_or (get_prop updatedCase ''visual_scenes'') (JArr []))\<rparr>
                                     else s1)
                              in (s2, [Fetched req])))))"

text \<open>
  The auto-refresh effect. Its dependencies are \<^verbatim>\<open>currentCase?.id\<close> and
  \<^verbatim>\<open>currentCase?.crime_scene_image_url\<close>; React runs it again only when one of them changes.
  It hands \<^verbatim>\<open>setInterval\<close> the \<^verbatim>\<open>refreshCaseData\<close> of the render it runs in, so the interval
  keeps the Case of that render (\<open>poller\<close>) until the effect is cleaned up.
\<close>

record app =
  ctrl :: controller
  poller :: "jsval option"
  last_deps :: "(jsval \<times> jsval) option"

definition effect_deps :: "jsval \<Rightarrow> jsval \<times> jsval" where
  "effect_deps c = (opt_member c ''id'', opt_member c ''crime_scene_image_url'')"

definition commit :: "app \<Rightarrow> app" where
  "commit a =
     (let c = currentCase (ctrl a) in
      if last_deps a = Some (effect_deps c) then a
      else a\<lparr> poller := (if truthy (opt_member c ''id'')
                              \<and> \<not> truthy (get_prop c ''crime_scene_image_url'')
                           then Some c else None),
               last_deps := Some (effect_deps c) \<rparr>)"

text \<open>The interval fires (every 10 seconds while it exists).\<close>

definition tick :: "environment \<Rightarrow> app \<Rightarrow> app" where
  "tick env a =
     (case poller a of
        None \<Rightarrow> a
      | Some seen \<Rightarrow> commit (a\<lparr>ctrl := fst (refreshCaseData env seen (ctrl a))\<rparr>))"

text \<open>The timeout set beside the interval (120 seconds) clears it.\<close>

definition stop_polling :: "app \<Rightarrow> app" where
  "stop_polling a = a\<lparr>poller := None\<rparr>"

text \<open>
  A state change followed by React's render and effect pass; \<open>None\<close> is the unmounted
  application.
\<close>

definition rendered :: "controller \<Rightarrow> app \<Rightarrow> app" where
  "rendered s a = commit (a\<lparr>ctrl := s\<rparr>)"

definition mounted :: app where
  "mounted = commit \<lparr>ctrl = initial_controller, poller = None, last_deps = None\<rparr>"

text \<open>The user picks a character, types a question and sends it.\<close>

definition ask :: "environment \<Rightarrow> jsval \<Rightarrow> string \<Rightarrow> app \<Rightarrow> app option" where
  "ask env character q a =
     (case questionCharacter env ((ctrl a)\<lparr>activeCharacter := character, question := q\<rparr>) of
        Completed (s', effs) \<Rightarrow> Some (rendered s' a)
      | RenderCrash e \<Rightarrow> None)"

section \<open>Example data\<close>

definition example_case :: jsval where
  "example_case =
     JObj [(''id'', JStr ''c1''), (''title'', JStr ''The Study''),
           (''characters'', JArr []), (''evidence'', JArr [])]"

definition example_save :: "string \<Rightarrow> save_record" where
  "example_save i =
     \<lparr> sr_id = i, sr_name = ''Case: The Study'', sr_timestamp = ''t'',
       sr_currentCase = example_case, sr_sessionId = JStr ''s1'',
       sr_conversations = Some [], sr_investigationNotes = Some [],
       sr_selectedEvidence = Some [], sr_theory = Some [], sr_analysis = JStr [],
       sr_gameState = Some Playing \<rparr>"

definition playing_controller :: controller where
  "playing_controller =
     initial_controller\<lparr>currentCase := example_case, sessionId := JStr ''s1'', gameState := Playing\<rparr>"

text \<open>A controller whose analysis cell holds \<^verbatim>\<open>undefined\<close>: \<^verbatim>\<open>analyzeEvidence\<close> stores
  \<^verbatim>\<open>data.analysis\<close> as it comes, and a body \<^verbatim>\<open>{}\<close> has no such member.\<close>

definition analysed_controller :: controller where
  "analysed_controller =
     playing_controller\<lparr>selectedEvidence := [''e1''], theory_text := ''the butler'',
                        analysis := JUndefined, gameState := Analysis\<rparr>"

definition http_response :: "nat \<Rightarrow> string \<Rightarrow> string \<Rightarrow> jsval option \<Rightarrow> response" where
  "http_response code reason body parsed =
     \<lparr>resp_status = code, resp_statusText = reason, resp_text = Some body, resp_json = parsed\<rparr>"

definition ok_response :: "jsval \<Rightarrow> response" where
  "ok_response body =
     \<lparr>resp_status = 200, resp_statusText = ''OK'', resp_text = None, resp_json = Some body\<rparr>"

text \<open>A backend that answers every request the same way.\<close>

definition backend :: "fetch_result \<Rightarrow> environment" where
  "backend res =
     \<lparr>fetch = (\<lambda>req. res), fresh_id = (\<lambda>i. 1000 + of_nat i / 7), date_now = 1000,
      time_string = ''10:00''\<rparr>"

definition generated_body :: "jsval \<Rightarrow> jsval" where
  "generated_body c = JObj [(''case'', c), (''session_id'', JStr ''s1'')]"

definition asking_controller :: controller where
  "asking_controller =
     playing_controller\<lparr>activeCharacter := JObj [(''id'', JStr ''ch1''), (''name'', JStr ''Lady Gray'')],
                        question := '' Where were you? ''\<rparr>"

definition theorising_controller :: "string \<Rightarrow> controller" where
  "theorising_controller t = playing_controller\<lparr>selectedEvidence := [''e1''], theory_text := t\<rparr>"

definition analysis_body :: jsval where
  "analysis_body = JObj [(''analysis'', JStr ''The theory is sound.'')]"


definition discovery :: "jsval \<Rightarrow> jsval" where
  "discovery c =
     JObj [(''character'', c), (''discovered_through'', JStr ''Lady Gray''),
           (''context'', JStr ''mentioned the gardener'')]"


definition lady_gray :: jsval where
  "lady_gray = JObj [(''id'', JStr ''ch1''), (''name'', JStr ''Lady Gray'')]"

definition manor_case :: jsval where
  "manor_case =
     JObj [(''id'', JStr ''c1''), (''title'', JStr ''The Manor''),
           (''characters'', JArr [lady_gray]), (''evidence'', JArr [])]"

definition library_scene :: "string \<Rightarrow> jsval \<Rightarrow> jsval" where
  "library_scene i img =
     JObj [(''id'', JStr i), (''title'', JStr ''The library''), (''image_url'', img)]"

definition scene_answer :: "jsval \<Rightarrow> jsval" where
  "scene_answer v =
     JObj [(''character_name'', JStr ''Lady Gray''), (''response'', JStr ''I was in the library.''),
           (''visual_scene_generated'', v)]"

text \<open>
  A session: the case is generated without an image, so the interval starts; two answers
  bring one scene each, their images still to come.
\<close>

definition two_scenes_session :: "app option" where
  "two_scenes_session =
     Option.bind
       (ask (backend (Resolved (ok_response (scene_answer (library_scene ''v1'' JNull)))))
          lady_gray ''Where were you?''
          (rendered (fst (generateNewCase (backend (Resolved (ok_response (generated_body manor_case))))
                            (ctrl mounted))) mounted))
       (ask (backend (Resolved (ok_response (scene_answer (library_scene ''v2'' JNull)))))
          lady_gray ''And then?'')"

text \<open>A backend that answers the poll with the case and the given scene list.\<close>

definition poll_backend :: "jsval list \<Rightarrow> environment" where
  "poll_backend scenes =
     backend (Resolved (ok_response
       (JObj [(''case'', with_prop manor_case ''visual_scenes'' (JArr scenes))])))"

section \<open>Theorems\<close>

lemma toggle_member:
  "x \<in> set (selectedEvidence (toggleEvidenceSelection i s)) \<longleftrightarrow>
     (if x = i then x \<notin> set (selectedEvidence s) else x \<in> set (selectedEvidence s))"
  by (auto simp: toggleEvidenceSelection_def)

lemma toggle_all_member:
  "x \<in> set (selectedEvidence (toggle_all ids s)) \<longleftrightarrow>
     (x \<in> set (selectedEvidence s)) \<noteq> odd (count_list ids x)"
proof (induction ids arbitrary: s)
  case Nil
  then show ?case by (simp add: toggle_all_def)
next
  case (Cons i ids)
  have "toggle_all (i # ids) s = toggle_all ids (toggleEvidenceSelection i s)"
    by (simp add: toggle_all_def)
  then show ?case
    using Cons.IH [of "toggleEvidenceSelection i s"] by (auto simp: toggle_member)
qed

text \<open>
  C1. Starting from an empty selection, whatever the rest of the controller state, after
  any sequence of \<^verbatim>\<open>toggleEvidenceSelection\<close> calls an identifier is selected exactly when
  the sequence toggled it an odd number of times.
\<close>

theorem C1_toggle_parity:
  "x \<in> set (selectedEvidence (toggle_all ids (s\<lparr>selectedEvidence := []\<rparr>)))
     \<longleftrightarrow> odd (count_list ids x)"
  by (simp add: toggle_all_member)

subsection \<open>Save store\<close>

lemma persisted_update [simp]: "persisted (st(saves_key \<mapsto> Encoded saves)) = saves"
  by (simp add: persisted_def)

lemma saveGame_result:
  "truthy (currentCase s) \<Longrightarrow>
   saveGame now locale_now False saveName st s =
     (st(saves_key \<mapsto> Encoded (savedGames s @ [gameData now locale_now saveName s])),
      s\<lparr>savedGames := savedGames s @ [gameData now locale_now saveName s], showSaveLoad := False\<rparr>,
      [SaveSucceeded (sr_name (gameData now locale_now saveName s))])"
  by (simp add: saveGame_def setItem_def Let_def)

text \<open>
  C2, amended. With an active Case and a storage write that succeeds, \<^verbatim>\<open>saveGame\<close> appends
  one record, and \<^verbatim>\<open>loadGame\<close> of that record (into whatever state the controller is in by
  then) restores the Case, the session identifier, the conversations, the notes, the
  selected evidence, the theory text and the screen mode exactly. The analysis cell comes
  back as it was when it is truthy, and as the empty text otherwise
  (\<^verbatim>\<open>saveData.analysis || ''\<close>).
\<close>

theorem C2_save_load_roundtrip:
  assumes "truthy (currentCase s)"
    and "saveGame now locale_now False saveName st s = (st', s', alerts)"
    and "loadGame (last (savedGames s')) s'' = (t, alerts')"
  shows "last (persisted st') = last (savedGames s')
       \<and> currentCase t = currentCase s
       \<and> sessionId t = sessionId s
       \<and> conversations t = conversations s
       \<and> investigationNotes t = investigationNotes s
       \<and> selectedEvidence t = selectedEvidence s
       \<and> theory_text t = theory_text s
       \<and> gameState t = gameState s
       \<and> analysis t = (if truthy (analysis s) then analysis s else JStr [])"
proof -
  let ?g = "gameData now locale_now saveName s"
  from assms(1,2) have s': "s' = s\<lparr>savedGames := savedGames s @ [?g], showSaveLoad := False\<rparr>"
    and st': "st' = st(saves_key \<mapsto> Encoded (savedGames s @ [?g]))"
    by (simp_all add: saveGame_result)
  from s' have g: "last (savedGames s') = ?g" by simp
  from assms(3) have t: "t = fst (loadGame ?g s'')" by (simp add: g)
  show ?thesis
    unfolding t g st'
    by (simp add: loadGame_def gameData_def object_or_def text_or_def js_or_def)
qed

theorem C2_roundtrip_witness:
  "truthy (currentCase playing_controller)
   \<and> analysis (fst (loadGame (last (savedGames (fst (snd
         (saveGame 7 ''now'' False ''mine'' Map.empty playing_controller)))))
         initial_controller)) = JStr []
   \<and> currentCase (fst (loadGame (last (savedGames (fst (snd
         (saveGame 7 ''now'' False ''mine'' Map.empty playing_controller)))))
         initial_controller)) = example_case"
proof -
  have c: "truthy (currentCase playing_controller)"
    by (simp add: playing_controller_def example_case_def)
  obtain st' s' alerts where sv:
    "saveGame 7 ''now'' False ''mine'' Map.empty playing_controller = (st', s', alerts)"
    by (metis prod_cases3)
  obtain t alerts' where ld: "loadGame (last (savedGames s')) initial_controller = (t, alerts')"
    by (metis surj_pair)
  have a: "analysis playing_controller = JStr []" "currentCase playing_controller = example_case"
    by (simp_all add: playing_controller_def initial_controller_def)
  from C2_save_load_roundtrip [OF c sv ld] c show ?thesis
    by (simp add: sv ld a)
qed

text \<open>
  The claim as stated fails where the analysis cell holds \<^verbatim>\<open>undefined\<close>: the record carries
  \<^verbatim>\<open>undefined\<close>, and \<^verbatim>\<open>loadGame\<close> puts the empty text in its place.
\<close>

theorem C2_roundtrip_counterexample:
  "truthy (currentCase analysed_controller)
   \<and> analysis (fst (loadGame (last (savedGames (fst (snd
         (saveGame 7 ''now'' False ''mine'' Map.empty analysed_controller)))))
         (fst (snd (saveGame 7 ''now'' False ''mine'' Map.empty analysed_controller)))))
       \<noteq> analysis analysed_controller"
  by (simp add: analysed_controller_def playing_controller_def example_case_def
      initial_controller_def saveGame_def setItem_def Let_def loadGame_def gameData_def js_or_def)

text \<open>
  The store and the in-memory list agree after the mount effect, and \<^verbatim>\<open>saveGame\<close> and
  \<^verbatim>\<open>deleteSave\<close> keep them so, whether the write succeeds or not.
\<close>

lemma loadSavedGames_in_sync:
  "persisted (fst (loadSavedGames st initial_controller))
     = savedGames (snd (loadSavedGames st initial_controller))"
  by (auto simp: loadSavedGames_def persisted_def initial_controller_def
      split: option.splits stored.splits)

lemma saveGame_in_sync:
  "persisted st = savedGames s \<Longrightarrow> saveGame now locale_now write_fails saveName st s = (st', s', alerts)
     \<Longrightarrow> persisted st' = savedGames s'"
  by (auto simp: saveGame_def setItem_def Let_def split: if_splits)

lemma deleteSave_in_sync:
  "persisted st = savedGames s \<Longrightarrow> deleteSave confirmed write_fails saveId st s = (st', s', alerts)
     \<Longrightarrow> persisted st' = savedGames s'"
  by (auto simp: deleteSave_def setItem_def Let_def split: if_splits)

text \<open>
  C7. When the store holds the in-memory list, a confirmed \<^verbatim>\<open>deleteSave(saveId)\<close> whose
  storage write succeeds leaves, in memory and in the store, the records whose identifier
  differs from \<^verbatim>\<open>saveId\<close>, in their original order, and nothing else.
\<close>

theorem C7_deleteSave_removes_exactly:
  assumes "persisted st = savedGames s"
    and "deleteSave True False saveId st s = (st', s', alerts)"
  shows "savedGames s' = filter (\<lambda>r. sr_id r \<noteq> saveId) (savedGames s)
       \<and> persisted st' = filter (\<lambda>r. sr_id r \<noteq> saveId) (persisted st)
       \<and> (\<forall>r. r \<in> set (savedGames s') \<longleftrightarrow> r \<in> set (savedGames s) \<and> sr_id r \<noteq> saveId)
       \<and> subseq (savedGames s') (savedGames s)
       \<and> persisted st' = savedGames s'"
  using assms by (auto simp: deleteSave_def setItem_def Let_def)

theorem C7_deleteSave_witness:
  "persisted [saves_key \<mapsto> Encoded [example_save ''1'', example_save ''2'', example_save ''3'']]
     = savedGames (initial_controller\<lparr>savedGames := [example_save ''1'', example_save ''2'', example_save ''3'']\<rparr>)
   \<and> savedGames (fst (snd (deleteSave True False ''2''
        [saves_key \<mapsto> Encoded [example_save ''1'', example_save ''2'', example_save ''3'']]
        (initial_controller\<lparr>savedGames := [example_save ''1'', example_save ''2'', example_save ''3'']\<rparr>))))
     = [example_save ''1'', example_save ''3'']
   \<and> persisted (fst (deleteSave True False ''2''
        [saves_key \<mapsto> Encoded [example_save ''1'', example_save ''2'', example_save ''3'']]
        (initial_controller\<lparr>savedGames := [example_save ''1'', example_save ''2'', example_save ''3'']\<rparr>)))
     = [example_save ''1'', example_save ''3'']"
proof -
  let ?xs = "[example_save ''1'', example_save ''2'', example_save ''3'']"
  let ?st = "[saves_key \<mapsto> Encoded ?xs]"
  let ?s = "initial_controller\<lparr>savedGames := ?xs\<rparr>"
  have h: "persisted ?st = savedGames ?s" by simp
  obtain st' s' alerts where d: "deleteSave True False ''2'' ?st ?s = (st', s', alerts)"
    by (metis prod_cases3)
  have i: "\<And>i. sr_id (example_save i) = i"
    by (simp add: example_save_def)
  from C7_deleteSave_removes_exactly [OF h d] h show ?thesis
    by (simp add: d i)
qed

text \<open>
  C8, amended. On mount, a stored text that is not empty and does not parse leaves the
  saved-games list empty and is removed from storage; a stored text that parses becomes
  the saved-games list and stays in storage; the empty text, which does not parse either,
  is skipped by \<^verbatim>\<open>if (saved)\<close> and stays in storage. The effect is a total function: it
  raises nothing.
\<close>

theorem C8_loadSavedGames:
  "(st saves_key = Some (Corrupt t) \<and> t \<noteq> [] \<longrightarrow>
      loadSavedGames st initial_controller = (st(saves_key := None), initial_controller)
      \<and> savedGames (snd (loadSavedGames st initial_controller)) = []
      \<and> fst (loadSavedGames st initial_controller) saves_key = None)
   \<and> (st saves_key = Some (Encoded saves) \<longrightarrow>
      loadSavedGames st initial_controller = (st, initial_controller\<lparr>savedGames := saves\<rparr>))
   \<and> (st saves_key = Some (Corrupt []) \<or> st saves_key = None \<longrightarrow>
      loadSavedGames st initial_controller = (st, initial_controller))"
  by (auto simp: loadSavedGames_def initial_controller_def)

theorem C8_loadSavedGames_witness:
  "loadSavedGames [saves_key \<mapsto> Corrupt ''{oops''] initial_controller
     = (Map.empty, initial_controller)
   \<and> loadSavedGames [saves_key \<mapsto> Encoded [example_save ''1'']] initial_controller
     = ([saves_key \<mapsto> Encoded [example_save ''1'']],
        initial_controller\<lparr>savedGames := [example_save ''1'']\<rparr>)"
  using C8_loadSavedGames [of "[saves_key \<mapsto> Corrupt ''{oops'']" "''{oops''" "[]"]
    C8_loadSavedGames [of "[saves_key \<mapsto> Encoded [example_save ''1'']]" "[]" "[example_save ''1'']"]
  by simp

text \<open>The empty text fails to parse, yet the mount effect leaves it in storage.\<close>

theorem C8_empty_text_counterexample:
  "JSON_parse (Corrupt []) = Inl SyntaxError
   \<and> fst (loadSavedGames [saves_key \<mapsto> Corrupt []] initial_controller) saves_key
       = Some (Corrupt [])"
  by (simp add: loadSavedGames_def)

subsection \<open>JavaScript values\<close>

lemma nullish_not_truthy: "nullish v \<Longrightarrow> \<not> truthy v"
  by (auto simp: nullish_def)

lemma safeGet_single:
  "CHR ''.'' \<notin> set k \<Longrightarrow> safeGet obj k d = js_coalesce (opt_member obj k) d"
proof -
  have "CHR ''.'' \<notin> set k \<Longrightarrow> split_dot k = [k]"
    by (induction k) (auto split: list.splits)
  then show "CHR ''.'' \<notin> set k \<Longrightarrow> safeGet obj k d = js_coalesce (opt_member obj k) d"
    by (simp add: safeGet_def)
qed

subsection \<open>Case generation and the API facade\<close>

lemma generateNewCase_failed:
  "generated_case (fetch env GenerateCase) = Inl e \<Longrightarrow>
     generateNewCase env s = (s\<lparr>loading := False\<rparr>, [Fetched GenerateCase, Alerted (GenerateFailed e)])"
  by (simp add: generateNewCase_def)

lemma safeGet_generated_body:
  "safeGet (generated_body c) ''case'' JNull = (if nullish c then JNull else c)"
  "safeGet (generated_body c) ''session_id'' JNull = JStr ''s1''"
  by (simp_all add: safeGet_single generated_body_def js_coalesce_def opt_member_def nullish_def)

text \<open>
  C3, amended. \<^verbatim>\<open>generateNewCase\<close> fails, leaving the Case, the session identifier, the
  conversations, the selected evidence, the theory, the analysis, the notes and the
  screen mode as they were and raising one alert, when the request is rejected, when the
  status is not 2xx, when the body is not JSON or not an object, and when the \<^verbatim>\<open>case\<close>
  member or its \<^verbatim>\<open>id\<close> is falsy: \<^verbatim>\<open>null\<close> or absent, and also the empty text, 0 and
  \<^verbatim>\<open>false\<close>. It succeeds, replacing the Case, storing the session identifier, emptying
  conversations, selection, theory, analysis and notes and switching to the playing
  screen, when the status is 2xx and the body is an object whose \<^verbatim>\<open>case\<close> is truthy and has
  a truthy \<^verbatim>\<open>id\<close>.
\<close>

theorem C3_generateNewCase:
  "(fetch env GenerateCase = Rejected
      \<or> fetch env GenerateCase = Resolved r
          \<and> (\<not> resp_ok r \<or> resp_json r = None
              \<or> resp_json r = Some data
                  \<and> (\<not> typeof_object data
                      \<or> nullish (safeGet data ''case'' JNull)
                      \<or> nullish (get_prop (safeGet data ''case'' JNull) ''id'')
                      \<or> \<not> truthy (safeGet data ''case'' JNull)
                      \<or> \<not> truthy (get_prop (safeGet data ''case'' JNull) ''id'')))
    \<longrightarrow> core_unchanged s (fst (generateNewCase env s))
        \<and> (\<exists>e. snd (generateNewCase env s) = [Fetched GenerateCase, Alerted (GenerateFailed e)]))
   \<and> (fetch env GenerateCase = Resolved r \<and> resp_ok r \<and> resp_json r = Some data
        \<and> typeof_object data
        \<and> truthy (safeGet data ''case'' JNull)
        \<and> truthy (get_prop (safeGet data ''case'' JNull) ''id'')
    \<longrightarrow> snd (generateNewCase env s) = [Fetched GenerateCase]
        \<and> currentCase (fst (generateNewCase env s)) = safeGet data ''case'' JNull
        \<and> sessionId (fst (generateNewCase env s)) = safeGet data ''session_id'' JNull
        \<and> conversations (fst (generateNewCase env s)) = []
        \<and> selectedEvidence (fst (generateNewCase env s)) = []
        \<and> theory_text (fst (generateNewCase env s)) = []
        \<and> analysis (fst (generateNewCase env s)) = JStr []
        \<and> investigationNotes (fst (generateNewCase env s)) = []
        \<and> gameState (fst (generateNewCase env s)) = Playing)"
proof (intro conjI impI)
  assume a: "fetch env GenerateCase = Rejected
      \<or> fetch env GenerateCase = Resolved r
          \<and> (\<not> resp_ok r \<or> resp_json r = None
              \<or> resp_json r = Some data
                  \<and> (\<not> typeof_object data
                      \<or> nullish (safeGet data ''case'' JNull)
                      \<or> nullish (get_prop (safeGet data ''case'' JNull) ''id'')
                      \<or> \<not> truthy (safeGet data ''case'' JNull)
                      \<or> \<not> truthy (get_prop (safeGet data ''case'' JNull) ''id'')))"
  then have "\<exists>e. generated_case (fetch env GenerateCase) = Inl e"
    by (auto simp: generated_case_def handleApiResponse_def Let_def nullish_not_truthy
        split: option.splits)
  then obtain e where e: "generated_case (fetch env GenerateCase) = Inl e" ..
  show "core_unchanged s (fst (generateNewCase env s))"
    by (simp add: generateNewCase_failed [OF e] core_unchanged_def)
  show "\<exists>e. snd (generateNewCase env s) = [Fetched GenerateCase, Alerted (GenerateFailed e)]"
    by (simp add: generateNewCase_failed [OF e])
next
  assume b: "fetch env GenerateCase = Resolved r \<and> resp_ok r \<and> resp_json r = Some data
        \<and> typeof_object data
        \<and> truthy (safeGet data ''case'' JNull)
        \<and> truthy (get_prop (safeGet data ''case'' JNull) ''id'')"
  have "data \<noteq> JNull"
    using b by (auto simp: safeGet_single js_coalesce_def opt_member_def nullish_def)
  with b have t: "truthy data" by (cases data) auto
  with b have g: "generated_case (fetch env GenerateCase)
      = Inr (safeGet data ''case'' JNull, safeGet data ''session_id'' JNull)"
    by (simp add: generated_case_def handleApiResponse_def Let_def)
  show "snd (generateNewCase env s) = [Fetched GenerateCase]"
    "currentCase (fst (generateNewCase env s)) = safeGet data ''case'' JNull"
    "sessionId (fst (generateNewCase env s)) = safeGet data ''session_id'' JNull"
    "conversations (fst (generateNewCase env s)) = []"
    "selectedEvidence (fst (generateNewCase env s)) = []"
    "theory_text (fst (generateNewCase env s)) = []"
    "analysis (fst (generateNewCase env s)) = JStr []"
    "investigationNotes (fst (generateNewCase env s)) = []"
    "gameState (fst (generateNewCase env s)) = Playing"
    by (simp_all add: generateNewCase_def g)
qed

theorem C3_generateNewCase_witness:
  "gameState (fst (generateNewCase (backend (Resolved (ok_response (generated_body example_case)))) initial_controller)) = Playing
   \<and> get_prop (currentCase (fst (generateNewCase (backend (Resolved (ok_response (generated_body example_case)))) initial_controller))) ''id'' = JStr ''c1''
   \<and> conversations (fst (generateNewCase (backend (Resolved (ok_response (generated_body example_case)))) initial_controller)) = []
   \<and> sessionId (fst (generateNewCase (backend (Resolved (ok_response (generated_body example_case)))) initial_controller)) = JStr ''s1''
   \<and> core_unchanged analysed_controller (fst (generateNewCase (backend Rejected) analysed_controller))"
proof -
  let ?r = "ok_response (generated_body example_case)"
  have h: "fetch (backend (Resolved ?r)) GenerateCase = Resolved ?r \<and> resp_ok ?r
      \<and> resp_json ?r = Some (generated_body example_case) \<and> typeof_object (generated_body example_case)
      \<and> truthy (safeGet (generated_body example_case) ''case'' JNull)
      \<and> truthy (get_prop (safeGet (generated_body example_case) ''case'' JNull) ''id'')"
    by (simp add: backend_def ok_response_def resp_ok_def safeGet_generated_body nullish_def)
      (simp add: generated_body_def example_case_def)
  have k: "fetch (backend Rejected) GenerateCase = Rejected"
    by (simp add: backend_def)
  have c: "get_prop example_case ''id'' = JStr ''c1''" "\<not> nullish example_case"
    by (simp_all add: example_case_def nullish_def)
  from C3_generateNewCase [of "backend (Resolved ?r)" ?r "generated_body example_case" initial_controller]
    C3_generateNewCase [of "backend Rejected" ?r JNull analysed_controller] h k
  show ?thesis
    by (simp add: safeGet_generated_body c)
qed

text \<open>
  The claim as stated promises success for any identifier that is not \<^verbatim>\<open>null\<close>. A 2xx body
  whose case has the empty text as identifier is refused by \<^verbatim>\<open>!caseData.id\<close>.
\<close>

theorem C3_empty_identifier_counterexample:
  "resp_ok (ok_response (generated_body (JObj [(''id'', JStr [])])))
   \<and> get_prop (generated_body (JObj [(''id'', JStr [])])) ''case'' = JObj [(''id'', JStr [])]
   \<and> get_prop (JObj [(''id'', JStr [])]) ''id'' = JStr []
   \<and> JStr [] \<noteq> JNull \<and> JStr [] \<noteq> JUndefined
   \<and> generateNewCase (backend (Resolved (ok_response (generated_body (JObj [(''id'', JStr [])]))))) initial_controller
       = (initial_controller,
          [Fetched GenerateCase, Alerted (GenerateFailed (Error ''Invalid case data received from server''))])"
  by (simp add: generateNewCase_def generated_case_def handleApiResponse_def backend_def
      ok_response_def resp_ok_def safeGet_generated_body nullish_def initial_controller_def)
    (simp add: generated_body_def)

lemma questionCharacter_failed:
  "trim (question s) \<noteq> [] \<Longrightarrow> truthy (activeCharacter s) \<Longrightarrow> \<not> nullish (currentCase s) \<Longrightarrow>
   fetch env (QuestionCharacter (get_prop (currentCase s) ''id'') (get_prop (activeCharacter s) ''id'')
       (trim (question s))) = Resolved r \<Longrightarrow>
   handleApiResponse r = Inl e \<Longrightarrow>
   questionCharacter env s =
     Completed (s\<lparr>loading := False\<rparr>,
       [Fetched (QuestionCharacter (get_prop (currentCase s) ''id'') (get_prop (activeCharacter s) ''id'')
          (trim (question s))), Alerted (QuestionFailed e)])"
  by (simp add: questionCharacter_def member_def Let_def)

lemma questionCharacter_rejected:
  "trim (question s) \<noteq> [] \<Longrightarrow> truthy (activeCharacter s) \<Longrightarrow> \<not> nullish (currentCase s) \<Longrightarrow>
   fetch env (QuestionCharacter (get_prop (currentCase s) ''id'') (get_prop (activeCharacter s) ''id'')
       (trim (question s))) = Rejected \<Longrightarrow>
   questionCharacter env s =
     Completed (s\<lparr>loading := False\<rparr>,
       [Fetched (QuestionCharacter (get_prop (currentCase s) ''id'') (get_prop (activeCharacter s) ''id'')
          (trim (question s))), Alerted (QuestionFailed FetchFailed)])"
  by (simp add: questionCharacter_def member_def Let_def)

lemma generateNewCase_rejected:
  "fetch env GenerateCase = Rejected \<Longrightarrow>
   generateNewCase env s =
     (s\<lparr>loading := False\<rparr>, [Fetched GenerateCase, Alerted (GenerateFailed FetchFailed)])"
  by (simp add: generateNewCase_def generated_case_def)

text \<open>
  C9, amended. \<^verbatim>\<open>handleApiResponse\<close> returns the parsed body exactly when the status is 2xx
  and the body parses to an array or an object, which is then neither \<^verbatim>\<open>null\<close> nor a
  primitive. With a status outside 2xx it raises one error whose message is the body
  text when that is readable and not empty, and \<^verbatim>\<open>HTTP <status>: <statusText>\<close> otherwise.
  With a 2xx status and a body that parses to \<^verbatim>\<open>null\<close> or a primitive the message is the
  fixed \<^verbatim>\<open>Invalid response format from server\<close>; a body that does not parse raises the
  parser's error. \<^verbatim>\<open>generateNewCase\<close> and \<^verbatim>\<open>questionCharacter\<close>, the two callers, report that
  error in a single alert. When \<^verbatim>\<open>fetch\<close> itself is rejected (a network failure) there is
  no response to hand over: either caller reports the platform's rejection in a single
  alert, and in all these failures changes nothing but the loading flag.
\<close>

theorem C9_handleApiResponse_contract:
  "(handleApiResponse r = Inr data \<longrightarrow>
      resp_ok r \<and> resp_json r = Some data \<and> ((\<exists>xs. data = JArr xs) \<or> (\<exists>kvs. data = JObj kvs)))
   \<and> (resp_ok r \<and> resp_json r = Some data \<and> typeof_object data \<and> data \<noteq> JNull \<longrightarrow>
      handleApiResponse r = Inr data)
   \<and> (\<not> resp_ok r \<and> resp_text r = Some body \<and> body \<noteq> [] \<longrightarrow>
      handleApiResponse r = Inl (Error body))
   \<and> (\<not> resp_ok r \<and> (resp_text r = None \<or> resp_text r = Some []) \<longrightarrow>
      handleApiResponse r =
        Inl (Error (''HTTP '' @ show_nat (resp_status r) @ '': '' @ resp_statusText r)))
   \<and> (resp_ok r \<and> resp_json r = Some data \<and> (data = JNull \<or> \<not> typeof_object data) \<longrightarrow>
      handleApiResponse r = Inl (Error ''Invalid response format from server''))
   \<and> (resp_ok r \<and> resp_json r = None \<longrightarrow> handleApiResponse r = Inl SyntaxError)
   \<and> (fetch env GenerateCase = Resolved r \<and> handleApiResponse r = Inl e \<longrightarrow>
      generateNewCase env s = (s\<lparr>loading := False\<rparr>, [Fetched GenerateCase, Alerted (GenerateFailed e)]))
   \<and> (trim (question s) \<noteq> [] \<and> truthy (activeCharacter s) \<and> \<not> nullish (currentCase s)
       \<and> fetch env (QuestionCharacter (get_prop (currentCase s) ''id'')
            (get_prop (activeCharacter s) ''id'') (trim (question s))) = Resolved r
       \<and> handleApiResponse r = Inl e \<longrightarrow>
      questionCharacter env s =
        Completed (s\<lparr>loading := False\<rparr>,
          [Fetched (QuestionCharacter (get_prop (currentCase s) ''id'')
             (get_prop (activeCharacter s) ''id'') (trim (question s))),
           Alerted (QuestionFailed e)]))
   \<and> (fetch env GenerateCase = Rejected \<longrightarrow>
      generateNewCase env s =
        (s\<lparr>loading := False\<rparr>, [Fetched GenerateCase, Alerted (GenerateFailed FetchFailed)]))
   \<and> (trim (question s) \<noteq> [] \<and> truthy (activeCharacter s) \<and> \<not> nullish (currentCase s)
       \<and> fetch env (QuestionCharacter (get_prop (currentCase s) ''id'')
            (get_prop (activeCharacter s) ''id'') (trim (question s))) = Rejected \<longrightarrow>
      questionCharacter env s =
        Completed (s\<lparr>loading := False\<rparr>,
          [Fetched (QuestionCharacter (get_prop (currentCase s) ''id'')
             (get_prop (activeCharacter s) ''id'') (trim (question s))),
           Alerted (QuestionFailed FetchFailed)]))"
proof -
  have "fetch env GenerateCase = Resolved r \<Longrightarrow> handleApiResponse r = Inl e \<Longrightarrow>
      generated_case (fetch env GenerateCase) = Inl e"
    by (simp add: generated_case_def)
  then have g: "fetch env GenerateCase = Resolved r \<and> handleApiResponse r = Inl e \<longrightarrow>
      generateNewCase env s = (s\<lparr>loading := False\<rparr>, [Fetched GenerateCase, Alerted (GenerateFailed e)])"
    by (simp add: generateNewCase_failed)
  have h: "(handleApiResponse r = Inr data \<longrightarrow>
      resp_ok r \<and> resp_json r = Some data \<and> ((\<exists>xs. data = JArr xs) \<or> (\<exists>kvs. data = JObj kvs)))
   \<and> (resp_ok r \<and> resp_json r = Some data \<and> typeof_object data \<and> data \<noteq> JNull \<longrightarrow>
      handleApiResponse r = Inr data)
   \<and> (\<not> resp_ok r \<and> resp_text r = Some body \<and> body \<noteq> [] \<longrightarrow>
      handleApiResponse r = Inl (Error body))
   \<and> (\<not> resp_ok r \<and> (resp_text r = None \<or> resp_text r = Some []) \<longrightarrow>
      handleApiResponse r =
        Inl (Error (''HTTP '' @ show_nat (resp_status r) @ '': '' @ resp_statusText r)))
   \<and> (resp_ok r \<and> resp_json r = Some data \<and> (data = JNull \<or> \<not> typeof_object data) \<longrightarrow>
      handleApiResponse r = Inl (Error ''Invalid response format from server''))
   \<and> (resp_ok r \<and> resp_json r = None \<longrightarrow> handleApiResponse r = Inl SyntaxError)"
    by (cases data) (auto simp: handleApiResponse_def http_message_def split: option.splits if_splits)
  show ?thesis
    using g h questionCharacter_failed [of s env r e] questionCharacter_rejected [of s env]
      generateNewCase_rejected [of env s]
    by blast
qed

theorem C9_handleApiResponse_witness:
  "handleApiResponse (http_response 404 ''Not Found'' [] None) = Inl (Error ''HTTP 404: Not Found'')
   \<and> handleApiResponse (http_response 429 ''Too Many Requests'' ''slow down'' None) = Inl (Error ''slow down'')
   \<and> handleApiResponse (ok_response (generated_body example_case)) = Inr (generated_body example_case)
   \<and> generateNewCase (backend (Resolved (http_response 429 ''Too Many Requests'' ''slow down'' None))) playing_controller
       = (playing_controller\<lparr>loading := False\<rparr>, [Fetched GenerateCase, Alerted (GenerateFailed (Error ''slow down''))])
   \<and> generateNewCase (backend Rejected) playing_controller
       = (playing_controller\<lparr>loading := False\<rparr>, [Fetched GenerateCase, Alerted (GenerateFailed FetchFailed)])
   \<and> questionCharacter (backend Rejected) asking_controller
       = Completed (asking_controller\<lparr>loading := False\<rparr>,
           [Fetched (QuestionCharacter (JStr ''c1'') (JStr ''ch1'') ''Where were you?''),
            Alerted (QuestionFailed FetchFailed)])"
proof -
  have n: "show_nat 404 = ''404''" by code_simp
  have q: "trim (question asking_controller) = ''Where were you?''"
    "trim (question asking_controller) \<noteq> []"
    "truthy (activeCharacter asking_controller)" "\<not> nullish (currentCase asking_controller)"
    "get_prop (currentCase asking_controller) ''id'' = JStr ''c1''"
    "get_prop (activeCharacter asking_controller) ''id'' = JStr ''ch1''"
    "fetch (backend Rejected) req = Rejected" for req
    by (simp_all add: asking_controller_def playing_controller_def initial_controller_def
        example_case_def trim_def is_space_def nullish_def backend_def)
  have a: "\<not> resp_ok (http_response 404 ''Not Found'' [] None)"
    "resp_text (http_response 404 ''Not Found'' [] None) = Some []"
    "resp_status (http_response 404 ''Not Found'' [] None) = 404"
    "resp_statusText (http_response 404 ''Not Found'' [] None) = ''Not Found''"
    "\<not> resp_ok (http_response 429 ''Too Many Requests'' ''slow down'' None)"
    "resp_text (http_response 429 ''Too Many Requests'' ''slow down'' None) = Some ''slow down''"
    "resp_ok (ok_response (generated_body example_case))"
    "resp_json (ok_response (generated_body example_case)) = Some (generated_body example_case)"
    "typeof_object (generated_body example_case)" "generated_body example_case \<noteq> JNull"
    "fetch (backend (Resolved (http_response 429 ''Too Many Requests'' ''slow down'' None))) GenerateCase
       = Resolved (http_response 429 ''Too Many Requests'' ''slow down'' None)"
    by (simp_all add: http_response_def ok_response_def resp_ok_def generated_body_def backend_def)
  from C9_handleApiResponse_contract [of "http_response 404 ''Not Found'' [] None" JNull "[]"
      "backend Rejected" TypeError initial_controller]
    C9_handleApiResponse_contract [of "http_response 429 ''Too Many Requests'' ''slow down'' None" JNull
      "''slow down''" "backend (Resolved (http_response 429 ''Too Many Requests'' ''slow down'' None))"
      "Error ''slow down''" playing_controller]
    C9_handleApiResponse_contract [of "ok_response (generated_body example_case)"
      "generated_body example_case" "[]" "backend Rejected" TypeError initial_controller]
    C9_handleApiResponse_contract [of "http_response 404 ''Not Found'' [] None" JNull "[]"
      "backend Rejected" TypeError playing_controller]
    C9_handleApiResponse_contract [of "http_response 404 ''Not Found'' [] None" JNull "[]"
      "backend Rejected" TypeError asking_controller]
  show ?thesis
    by (simp add: a n q)
qed

text \<open>
  A 2xx response whose body is the JSON number 5 is a failed call; its error message is
  neither the body text nor the \<^verbatim>\<open>HTTP\<close> fallback.
\<close>

theorem C9_invalid_format_counterexample:
  "resp_ok (\<lparr>resp_status = 200, resp_statusText = ''OK'', resp_text = Some ''5'', resp_json = Some (JNum 5)\<rparr>)
   \<and> handleApiResponse \<lparr>resp_status = 200, resp_statusText = ''OK'', resp_text = Some ''5'', resp_json = Some (JNum 5)\<rparr>
       = Inl (Error ''Invalid response format from server'')
   \<and> ''Invalid response format from server'' \<noteq> ''5''
   \<and> ''Invalid response format from server'' \<noteq> ''HTTP 200: OK''"
  by (simp add: handleApiResponse_def resp_ok_def)

subsection \<open>Evidence analysis\<close>

lemma trim_empty_iff: "trim t = [] \<longleftrightarrow> (\<forall>c\<in>set t. is_space c)"
proof
  assume "trim t = []"
  then have a: "\<forall>c\<in>set (dropWhile is_space t). is_space c"
    by (simp add: trim_def dropWhile_eq_Nil_conv)
  have "dropWhile is_space t = []"
  proof (rule ccontr)
    assume n: "dropWhile is_space t \<noteq> []"
    then have "\<not> is_space (hd (dropWhile is_space t))" by (rule hd_dropWhile)
    moreover from n have "hd (dropWhile is_space t) \<in> set (dropWhile is_space t)" by simp
    ultimately show False using a by blast
  qed
  then show "\<forall>c\<in>set t. is_space c" by (simp add: dropWhile_eq_Nil_conv)
next
  assume "\<forall>c\<in>set t. is_space c"
  then have "dropWhile is_space t = []" by (simp add: dropWhile_eq_Nil_conv)
  then show "trim t = []" by (simp only: trim_def dropWhile.simps rev.simps)
qed

text \<open>
  C5. When the theory text is empty or only white space, or no evidence is selected,
  \<^verbatim>\<open>analyzeEvidence\<close> raises the validation alert, fetches nothing and returns the state it
  was given. A request is sent only when the trimmed theory is not empty and the
  selection is not empty, and then (the Case being there to take the identifier from) it
  is sent. When that request is answered with a 2xx status and a JSON body, the body's
  \<^verbatim>\<open>analysis\<close> member is stored and the screen mode becomes \<^verbatim>\<open>analysis\<close>.
\<close>

theorem C5_analyzeEvidence:
  "((\<forall>c\<in>set (theory_text s). is_space c) \<or> selectedEvidence s = [] \<longrightarrow>
      analyzeEvidence env s = (s, [Alerted AnalyzeInvalid]))
   \<and> ((\<exists>req. Fetched req \<in> set (snd (analyzeEvidence env s))) \<longrightarrow>
      trim (theory_text s) \<noteq> [] \<and> selectedEvidence s \<noteq> [])
   \<and> (trim (theory_text s) \<noteq> [] \<and> selectedEvidence s \<noteq> [] \<and> \<not> nullish (currentCase s) \<longrightarrow>
      Fetched (AnalyzeEvidence (get_prop (currentCase s) ''id'') (selectedEvidence s) (trim (theory_text s)))
        \<in> set (snd (analyzeEvidence env s)))
   \<and> (trim (theory_text s) \<noteq> [] \<and> selectedEvidence s \<noteq> [] \<and> \<not> nullish (currentCase s)
       \<and> fetch env (AnalyzeEvidence (get_prop (currentCase s) ''id'') (selectedEvidence s)
            (trim (theory_text s))) = Resolved r
       \<and> resp_ok r \<and> resp_json r = Some data \<and> \<not> nullish data \<longrightarrow>
      analyzeEvidence env s =
        (s\<lparr>analysis := get_prop data ''analysis'', gameState := Analysis, loading := False\<rparr>,
         [Fetched (AnalyzeEvidence (get_prop (currentCase s) ''id'') (selectedEvidence s)
            (trim (theory_text s)))]))"
  by (auto simp: analyzeEvidence_def trim_empty_iff member_def Let_def
      split: sum.splits fetch_result.splits option.splits if_splits)

theorem C5_analyzeEvidence_witness:
  "analyzeEvidence (backend (Resolved (ok_response analysis_body))) (theorising_controller [])
     = (theorising_controller [], [Alerted AnalyzeInvalid])
   \<and> analyzeEvidence (backend (Resolved (ok_response analysis_body))) (theorising_controller ''  '')
     = (theorising_controller ''  '', [Alerted AnalyzeInvalid])
   \<and> analyzeEvidence (backend (Resolved (ok_response analysis_body))) (theorising_controller '' the butler '')
     = ((theorising_controller '' the butler '')
          \<lparr>analysis := JStr ''The theory is sound.'', gameState := Analysis, loading := False\<rparr>,
        [Fetched (AnalyzeEvidence (JStr ''c1'') [''e1''] ''the butler'')])"
proof -
  let ?env = "backend (Resolved (ok_response analysis_body))"
  have a: "theory_text (theorising_controller t) = t"
    "selectedEvidence (theorising_controller t) = [''e1'']"
    "\<not> nullish (currentCase (theorising_controller t))"
    "get_prop (currentCase (theorising_controller t)) ''id'' = JStr ''c1''" for t
    by (simp_all add: theorising_controller_def playing_controller_def example_case_def nullish_def)
  have b: "trim '' the butler '' = ''the butler''" "is_space CHR '' ''"
    by (simp_all add: trim_def is_space_def)
  have c: "fetch ?env q = Resolved (ok_response analysis_body)" "resp_ok (ok_response analysis_body)"
    "resp_json (ok_response analysis_body) = Some analysis_body" "\<not> nullish analysis_body"
    "get_prop analysis_body ''analysis'' = JStr ''The theory is sound.''" for q
    by (simp_all add: backend_def ok_response_def resp_ok_def analysis_body_def nullish_def)
  from C5_analyzeEvidence [of "theorising_controller []" ?env "ok_response analysis_body" analysis_body]
    C5_analyzeEvidence [of "theorising_controller ''  ''" ?env "ok_response analysis_body" analysis_body]
    C5_analyzeEvidence [of "theorising_controller '' the butler ''" ?env "ok_response analysis_body" analysis_body]
  show ?thesis
    by (simp add: a b c)
qed

text \<open>
  \<^verbatim>\<open>analyzeEvidence\<close> does not go through \<^verbatim>\<open>handleApiResponse\<close>: a 2xx body without an
  \<^verbatim>\<open>analysis\<close> member, or one that is a number, counts as a success and stores
  \<^verbatim>\<open>undefined\<close>.
\<close>

lemma analyzeEvidence_stores_undefined:
  "fst (analyzeEvidence (backend (Resolved (ok_response (JObj [])))) (theorising_controller ''the butler''))
     = analysed_controller"
  "fst (analyzeEvidence (backend (Resolved (ok_response (JNum 5)))) (theorising_controller ''the butler''))
     = analysed_controller"
  "handleApiResponse (ok_response (JNum 5)) = Inl (Error ''Invalid response format from server'')"
  by (simp_all add: analyzeEvidence_def theorising_controller_def analysed_controller_def
      playing_controller_def initial_controller_def example_case_def member_def nullish_def
      backend_def ok_response_def resp_ok_def trim_def is_space_def handleApiResponse_def)

subsection \<open>Questioning a character\<close>



















subsection \<open>Polling refresher\<close>

lemma refreshCaseData_failed:
  "fetch env (GetCase (get_prop seen ''id'')) = Rejected
     \<or> fetch env (GetCase (get_prop seen ''id'')) = Resolved r \<and> \<not> resp_ok r
   \<Longrightarrow> fst (refreshCaseData env seen s) = s"
  by (auto simp: refreshCaseData_def Let_def)

lemma refreshCaseData_frame:
  assumes "currentCase s = JObj kvs"
  shows "\<exists>c'. fst (refreshCaseData env seen s) = s\<lparr>currentCase := c'\<rparr>
      \<and> (\<forall>k. k \<noteq> ''crime_scene_image_url'' \<and> k \<noteq> ''visual_scenes'' \<longrightarrow>
            get_prop c' k = get_prop (currentCase s) k)"
  using assms
  by (auto simp: refreshCaseData_def Let_def with_prop_def update_conv'
      split: fetch_result.splits option.splits sum.splits intro: exI [of _ "currentCase s"])

text \<open>
  When the Case the interval saw is the Case of the moment, the two updates are guarded
  as the polling policy says.
\<close>

lemma refreshCaseData_fresh:
  assumes "currentCase s = JObj kvs" and "seen = currentCase s"
    and "fetch env (GetCase (get_prop seen ''id'')) = Resolved r"
    and "resp_json r = Some data"
  shows "(get_prop (currentCase (fst (refreshCaseData env seen s))) ''crime_scene_image_url''
            \<noteq> get_prop (currentCase s) ''crime_scene_image_url''
          \<longrightarrow> \<not> truthy (get_prop (currentCase s) ''crime_scene_image_url'')
              \<and> truthy (get_prop (get_prop data ''case'') ''crime_scene_image_url''))
       \<and> (get_prop (currentCase (fst (refreshCaseData env seen s))) ''visual_scenes''
            \<noteq> get_prop (currentCase s) ''visual_scenes''
          \<longrightarrow> count_gt (scenes_count (get_prop (get_prop data ''case'') ''visual_scenes''))
                       (scenes_count (get_prop (currentCase s) ''visual_scenes'')))"
  using assms
  by (auto simp: refreshCaseData_def Let_def with_prop_def update_conv' member_def
      split: if_splits)

text \<open>
  C6. The claim lets a poll replace the scene list only when the fetched list is longer
  than the current one. \<^verbatim>\<open>refreshCaseData\<close> compares with the list of the Case its interval
  was created with, and the effect that creates the interval does not depend on the scene
  list. In the session below the interval saw a Case without scenes and two answers have
  brought the live list to two scenes. A poll answered with a single scene replaces the
  live list by it, and a poll answered with two scenes, the same two with their images,
  replaces it as well: the list is modified by fetched lists that are not longer than
  the current one.
\<close>

theorem C6_stale_scene_count:
  "map_option
     (\<lambda>a. (poller a,
           get_prop (currentCase (ctrl a)) ''visual_scenes'',
           get_prop (currentCase (ctrl (tick (poll_backend [library_scene ''v1'' (JStr ''v1.png'')]) a)))
             ''visual_scenes'',
           get_prop (currentCase (ctrl (tick (poll_backend [library_scene ''v1'' (JStr ''v1.png''),
                                                            library_scene ''v2'' (JStr ''v2.png'')]) a)))
             ''visual_scenes''))
     two_scenes_session
   = Some (Some manor_case,
           JArr [library_scene ''v1'' JNull, library_scene ''v2'' JNull],
           JArr [library_scene ''v1'' (JStr ''v1.png'')],
           JArr [library_scene ''v1'' (JStr ''v1.png''), library_scene ''v2'' (JStr ''v2.png'')])"
  by code_simp

end
